theory Spec2Isabelle
  imports Main
begin

section \<open>Values, errors and the collaborators of the core\<close>

text \<open>
  A value of Go's \<^verbatim>\<open>interface{}\<close> as the attribute code stores it: the nil
  interface, an integer or a string.
\<close>

datatype val = NilV | IntV int | StrV string

text \<open>
  The error values built in \<^verbatim>\<open>association.go\<close> and \<^verbatim>\<open>attibute.go\<close>:
  the three error structs with their fields in declaration order, and the plain
  message errors of \<^verbatim>\<open>errors.New\<close> and \<^verbatim>\<open>errors.Errorf\<close>, which is also how the
  errors of collaborators (reflection, query execution, validators) are
  represented. \<open>PanicNilMap\<close> is not a returned error: it stands for the Go
  run-time panic "assignment to entry in nil map".
\<close>

datatype error =
    ErrAssociation string
  | ErrUnknownAssociation string string
  | ErrUnknownAttribute string string
  | ErrorNew string
  | PanicNilMap

definition defaultPrimaryKeyName :: string where
  "defaultPrimaryKeyName = ''id''"

type_synonym exec_context = nat

text \<open>
  Modelled from the spec: the type \<^verbatim>\<open>Relation\<close> and its query-building methods
  \<^verbatim>\<open>Name\<close>, \<^verbatim>\<open>WithContext\<close>, \<^verbatim>\<open>Where\<close> and \<^verbatim>\<open>Limit\<close>, which are not part of the
  source files. A relation is a lazy query handle: the builders return a new
  handle that records the context, the predicates and the limit, and execute
  nothing.
\<close>

record relation =
  rel_name :: string
  rel_ctx :: exec_context
  rel_where :: "(string \<times> val) list"
  rel_limit :: "int option"

definition Name :: "relation \<Rightarrow> string" where
  "Name r = rel_name r"

definition WithContext :: "relation \<Rightarrow> exec_context \<Rightarrow> relation" where
  "WithContext r ctx = r\<lparr>rel_ctx := ctx\<rparr>"

definition Where :: "relation \<Rightarrow> string \<Rightarrow> val \<Rightarrow> relation" where
  "Where r column v = r\<lparr>rel_where := rel_where r @ [(column, v)]\<rparr>"

definition Limit :: "relation \<Rightarrow> int \<Rightarrow> relation" where
  "Limit r n = r\<lparr>rel_limit := Some n\<rparr>"

text \<open>
  Modelled from the spec: the type \<^verbatim>\<open>ActiveRecord\<close> with the four observations
  the resolvers use (\<^verbatim>\<open>Name\<close>, \<^verbatim>\<open>Context\<close>, \<^verbatim>\<open>ID\<close>, \<^verbatim>\<open>Attribute\<close>); the struct is
  not part of the source files. A \<^verbatim>\<open>*ActiveRecord\<close> is an
  \<open>activerecord option\<close>, \<open>None\<close> being the nil pointer.
\<close>

record activerecord =
  rec_name :: string
  rec_ctx :: exec_context
  rec_id :: val
  rec_attrs :: "(string \<times> val) list"

definition Context :: "activerecord \<Rightarrow> exec_context" where
  "Context r = rec_ctx r"

definition ID :: "activerecord \<Rightarrow> val" where
  "ID r = rec_id r"

definition Attribute :: "activerecord \<Rightarrow> string \<Rightarrow> val" where
  "Attribute r attrName = (case map_of (rec_attrs r) attrName of None \<Rightarrow> NilV | Some v \<Rightarrow> v)"

text \<open>
  The calls a resolver makes on its collaborators, in the order it makes them.
  \<open>CallFind\<close> and \<open>CallToA\<close> are the terminal calls that execute a relation.
\<close>

datatype event =
    CallReflection string
  | CallFind relation val
  | CallToA relation

text \<open>
  The functions the source calls and does not define, taken as parameters:
  the terminal methods \<^verbatim>\<open>Find\<close> and \<^verbatim>\<open>ToA\<close> of a relation, \<^verbatim>\<open>strings.ToLower\<close>,
  and the rendering of a record slice by \<^verbatim>\<open>fmt.Sprintf("%s", records)\<close>.
  A Go pair (result, error) is a sum, \<open>Inl\<close> carrying the non-nil error.
\<close>

record collaborators =
  rel_Find :: "relation \<Rightarrow> val \<Rightarrow> error + activerecord option"
  rel_ToA :: "relation \<Rightarrow> error + activerecord list"
  strings_ToLower :: "string \<Rightarrow> string"
  fmt_records :: "activerecord list \<Rightarrow> string"

type_synonym RecordResult = "error + activerecord option"
type_synonym CollectionResult = "error + relation"

section \<open>Association resolvers\<close>

text \<open>
  The structs \<^verbatim>\<open>BelongsTo\<close>, \<^verbatim>\<open>HasMany\<close> and \<^verbatim>\<open>HasOne\<close> declare the same four
  fields. The field \<open>reflection\<close> is the method \<^verbatim>\<open>Reflection\<close> of the registry
  the struct points to: it maps a record-kind name to its relation, or to an
  error (the model assumes the relation is non-nil exactly when the error is
  nil). The empty string is the zero value of \<open>foreignKey\<close>: no override set.
  The pointers \<open>owner\<close> and \<open>reflection\<close> and the owner record passed to a fetch
  are taken to be non-nil.
\<close>

record resolver =
  owner :: relation
  reflection :: "string \<Rightarrow> error + relation"
  targetName :: string
  foreignKey :: string

datatype association =
    BelongsTo resolver
  | HasMany resolver
  | HasOne resolver


definition BelongsTo_AssociationForeignKey :: "resolver \<Rightarrow> string" where
  "BelongsTo_AssociationForeignKey a =
     (if foreignKey a \<noteq> [] then foreignKey a
      else targetName a @ ''_'' @ defaultPrimaryKeyName)"


definition HasMany_AssociationForeignKey :: "collaborators \<Rightarrow> resolver \<Rightarrow> string" where
  "HasMany_AssociationForeignKey c a =
     (if foreignKey a \<noteq> [] then foreignKey a
      else strings_ToLower c (Name (owner a)) @ ''_'' @ defaultPrimaryKeyName)"


definition HasOne_AssociationForeignKey :: "resolver \<Rightarrow> string" where
  "HasOne_AssociationForeignKey a = defaultPrimaryKeyName"


fun AssociationForeignKey :: "collaborators \<Rightarrow> association \<Rightarrow> string" where
  "AssociationForeignKey c (BelongsTo a) = BelongsTo_AssociationForeignKey a"
| "AssociationForeignKey c (HasMany a) = HasMany_AssociationForeignKey c a"
| "AssociationForeignKey c (HasOne a) = HasOne_AssociationForeignKey a"

text \<open>The foreign key explicitly set on an association, whatever its kind.\<close>

fun explicit_foreignKey :: "association \<Rightarrow> string" where
  "explicit_foreignKey (BelongsTo a) = foreignKey a"
| "explicit_foreignKey (HasMany a) = foreignKey a"
| "explicit_foreignKey (HasOne a) = foreignKey a"

definition BelongsTo_AccessAssociation ::
  "collaborators \<Rightarrow> resolver \<Rightarrow> activerecord \<Rightarrow> RecordResult \<times> event list" where
  "BelongsTo_AccessAssociation c a ownr =
     (case reflection a (targetName a) of
        Inl err \<Rightarrow> (Inl err, [CallReflection (targetName a)])
      | Inr targets \<Rightarrow>
          (let targetId = Attribute ownr (BelongsTo_AssociationForeignKey a);
               q = WithContext targets (Context ownr)
           in (rel_Find c q targetId,
               [CallReflection (targetName a), CallFind q targetId])))"

definition HasMany_AccessCollection ::
  "collaborators \<Rightarrow> resolver \<Rightarrow> activerecord \<Rightarrow> CollectionResult \<times> event list" where
  "HasMany_AccessCollection c a ownr =
     (case reflection a (targetName a) of
        Inl err \<Rightarrow> (Inl err, [CallReflection (targetName a)])
      | Inr targets \<Rightarrow>
          (let targets1 = WithContext targets (Context ownr);
               targets2 = Where targets1 (HasMany_AssociationForeignKey c a) (ID ownr)
           in (Inr targets2, [CallReflection (targetName a)])))"

definition has_one_message :: "collaborators \<Rightarrow> activerecord list \<Rightarrow> string" where
  "has_one_message c records =
     ''declared 'has_one' association, but has many: '' @ fmt_records c records"

definition HasOne_AccessAssociation ::
  "collaborators \<Rightarrow> resolver \<Rightarrow> activerecord \<Rightarrow> RecordResult \<times> event list" where
  "HasOne_AccessAssociation c a ownr =
     (case reflection a (targetName a) of
        Inl err \<Rightarrow> (Inl err, [CallReflection (targetName a)])
      | Inr targets \<Rightarrow>
          (let targets1 = WithContext targets (Context ownr);
               targets2 = Where targets1 (HasOne_AssociationForeignKey a) (ID ownr);
               q = Limit targets2 2;
               calls = [CallReflection (targetName a), CallToA q]
           in (case rel_ToA c q of
                 Inl err \<Rightarrow> (Inl err, calls)
               | Inr records \<Rightarrow>
                   (case records of
                      [] \<Rightarrow> (Inr None, calls)
                    | [r] \<Rightarrow> (Inr (Some r), calls)
                    | _ \<Rightarrow> (Inl (ErrAssociation (has_one_message c records)), calls)))))"

section \<open>Association registry\<close>

text \<open>
  The struct \<^verbatim>\<open>associations\<close>. Its two maps are only read by the code below,
  and reading a nil Go map behaves as reading an empty one, so both are plain
  maps. \<open>assoc_rec\<close> is the record bound by \<^verbatim>\<open>delegateAccessors\<close>; a cached value
  may be the nil pointer (\<open>Some None\<close>).
\<close>

record associations =
  assoc_recordName :: string
  assoc_rec :: activerecord
  assoc_reflection :: "string \<Rightarrow> error + relation"
  assoc_keys :: "string \<rightharpoonup> association"
  assoc_values :: "string \<rightharpoonup> activerecord option"


text \<open>
  \<^verbatim>\<open>newAssociations\<close> creates the registry with an empty cache and leaves \<open>rec\<close>
  nil, and \<^verbatim>\<open>copy\<close> duplicates the two maps and leaves \<open>rec\<close> nil as well; the
  accessors are called once \<^verbatim>\<open>delegateAccessors\<close> has bound a record. The model
  has no registry without a record: the last argument of \<open>newAssociations\<close> and
  of \<open>copy\<close> is the record that \<^verbatim>\<open>delegateAccessors\<close> binds next.
\<close>

definition newAssociations ::
  "string \<Rightarrow> (string \<rightharpoonup> association) \<Rightarrow> (string \<Rightarrow> error + relation) \<Rightarrow> activerecord
     \<Rightarrow> associations" where
  "newAssociations recordName assocs reflect r =
     \<lparr>assoc_recordName = recordName, assoc_rec = r, assoc_reflection = reflect,
      assoc_keys = assocs, assoc_values = Map.empty\<rparr>"

definition delegateAccessors :: "associations \<Rightarrow> activerecord \<Rightarrow> associations" where
  "delegateAccessors a r = a\<lparr>assoc_rec := r\<rparr>"

definition copy :: "associations \<Rightarrow> activerecord \<Rightarrow> associations" where
  "copy a r =
     \<lparr>assoc_recordName = assoc_recordName a, assoc_rec = r,
      assoc_reflection = assoc_reflection a, assoc_keys = assoc_keys a,
      assoc_values = assoc_values a\<rparr>"

definition HasAssociation :: "associations \<Rightarrow> string \<Rightarrow> bool" where
  "HasAssociation a assocName = (assoc_keys a assocName \<noteq> None)"

definition get :: "associations \<Rightarrow> string \<Rightarrow> association option" where
  "get a assocName =
     (if \<not> HasAssociation a assocName then None else assoc_keys a assocName)"




definition not_singular_message :: "string \<Rightarrow> string" where
  "not_singular_message assocName =
     CHR 0x27 # assocName @ CHR 0x27 # '' is not a singular association''"

definition not_collection_message :: "string \<Rightarrow> string" where
  "not_collection_message collName =
     CHR 0x27 # collName @ CHR 0x27 # '' is not a collection association''"

text \<open>
  \<^verbatim>\<open>Association\<close> and \<^verbatim>\<open>Collection\<close> have a pointer receiver: the model returns
  the result, the registry after the call and the calls made on collaborators.
  Only \<^verbatim>\<open>BelongsTo\<close> and \<^verbatim>\<open>HasOne\<close> have a method \<^verbatim>\<open>AccessAssociation\<close>, and only
  \<^verbatim>\<open>HasMany\<close> has \<^verbatim>\<open>AccessCollection\<close>, which decides the two type assertions.
\<close>

definition Association ::
  "collaborators \<Rightarrow> associations \<Rightarrow> string
     \<Rightarrow> RecordResult \<times> associations \<times> event list" where
  "Association c a assocName =
     (case get a assocName of
        None \<Rightarrow> (Inl (ErrUnknownAssociation (rec_name (assoc_rec a)) assocName), a, [])
      | Some assoc \<Rightarrow>
          (case assoc_values a assocName of
             Some r \<Rightarrow> (Inr r, a, [])
           | None \<Rightarrow>
               (case assoc of
                  BelongsTo sa \<Rightarrow>
                    (case BelongsTo_AccessAssociation c sa (assoc_rec a) of
                       (res, calls) \<Rightarrow> (res, a, calls))
                | HasOne sa \<Rightarrow>
                    (case HasOne_AccessAssociation c sa (assoc_rec a) of
                       (res, calls) \<Rightarrow> (res, a, calls))
                | HasMany _ \<Rightarrow>
                    (Inl (ErrAssociation (not_singular_message assocName)), a, []))))"

definition Collection ::
  "collaborators \<Rightarrow> associations \<Rightarrow> string
     \<Rightarrow> CollectionResult \<times> associations \<times> event list" where
  "Collection c a collName =
     (case get a collName of
        None \<Rightarrow> (Inl (ErrUnknownAssociation (rec_name (assoc_rec a)) collName), a, [])
      | Some assoc \<Rightarrow>
          (case assoc of
             HasMany ca \<Rightarrow>
               (case HasMany_AccessCollection c ca (assoc_rec a) of
                  (res, calls) \<Rightarrow> (res, a, calls))
           | _ \<Rightarrow> (Inl (ErrAssociation (not_collection_message collName)), a, [])))"

section \<open>Attributes\<close>

text \<open>
  Modelled from the spec: the types \<^verbatim>\<open>IntValidators\<close> and \<^verbatim>\<open>StringValidators\<close>
  and their method \<^verbatim>\<open>Validate\<close>, which are not part of the source files. An
  attribute has zero or more validation rules, all of which must pass; the
  first rule that fails gives the error. The zero value is the empty list.
\<close>

type_synonym validators = "(val \<Rightarrow> error option) list"

fun Validators_Validate :: "validators \<Rightarrow> val \<Rightarrow> error option" where
  "Validators_Validate [] v = None"
| "Validators_Validate (rule # rules) v =
     (case rule v of Some err \<Rightarrow> Some err | None \<Rightarrow> Validators_Validate rules v)"

text \<open>
  The implementations of the interface \<^verbatim>\<open>Attribute\<close>. The struct \<^verbatim>\<open>PrimaryKey\<close>
  embeds an attribute, so it inherits the three methods of the attribute it
  wraps, and it is the only type with a method \<^verbatim>\<open>PrimaryKey\<close>, which returns
  true. A schema that stores a nil interface value is outside the model.
\<close>

datatype attribute =
    IntAttr string validators
  | StringAttr string validators
  | PrimaryKey attribute

fun AttributeName :: "attribute \<Rightarrow> string" where
  "AttributeName (IntAttr name validates) = name"
| "AttributeName (StringAttr name validates) = name"
| "AttributeName (PrimaryKey a) = AttributeName a"

fun CastType :: "attribute \<Rightarrow> string" where
  "CastType (IntAttr name validates) = ''int''"
| "CastType (StringAttr name validates) = ''string''"
| "CastType (PrimaryKey a) = CastType a"

fun Validate :: "attribute \<Rightarrow> val \<Rightarrow> error option" where
  "Validate (IntAttr name validates) v = Validators_Validate validates v"
| "Validate (StringAttr name validates) v = Validators_Validate validates v"
| "Validate (PrimaryKey a) v = Validate a v"

text \<open>The test \<^verbatim>\<open>pk, ok := attr.(primaryKey); ok && pk.PrimaryKey()\<close>.\<close>

fun is_primaryKey :: "attribute \<Rightarrow> bool" where
  "is_primaryKey (PrimaryKey a) = True"
| "is_primaryKey _ = False"

text \<open>
  A Go map that the code may receive as nil: \<open>None\<close> is the nil map. Reading a
  nil map finds nothing; writing to it panics.
\<close>

type_synonym ('k, 'v) gomap = "('k \<rightharpoonup> 'v) option"

definition lookup :: "('k, 'v) gomap \<Rightarrow> 'k \<Rightarrow> 'v option" where
  "lookup m k = (case m of None \<Rightarrow> None | Some f \<Rightarrow> f k)"

definition store :: "('k, 'v) gomap \<Rightarrow> 'k \<Rightarrow> 'v \<Rightarrow> error + ('k, 'v) gomap" where
  "store m k v = (case m of None \<Rightarrow> Inl PanicNilMap | Some f \<Rightarrow> Inr (Some (f(k \<mapsto> v))))"

definition keys_of :: "('k, 'v) gomap \<Rightarrow> 'k set" where
  "keys_of m = (case m of None \<Rightarrow> {} | Some f \<Rightarrow> dom f)"

record attributes =
  attr_recordName :: string
  attr_primaryKey :: "attribute option"
  attr_keys :: "(string, attribute) gomap"
  attr_values :: "(string, val) gomap"

definition multiple_primary_keys :: error where
  "multiple_primary_keys = ErrorNew ''multiple primary keys are not supported''"

definition not_a_primary_key :: error where
  "not_a_primary_key =
     ErrorNew (CHR 0x22 # defaultPrimaryKeyName @ CHR 0x22 # '' is an attribute, but not a primary key'')"

text \<open>
  The first loop of \<^verbatim>\<open>newAttributes\<close>, over the schema in the iteration order
  \<open>names\<close> of this run; the third argument is \<^verbatim>\<open>recordAttrs.primaryKey\<close>.
  A name that is not a key of the schema is passed over; an iteration order of
  the schema has none.
\<close>

fun range_keys ::
  "(string, attribute) gomap \<Rightarrow> string list \<Rightarrow> attribute option \<Rightarrow> error + attribute option" where
  "range_keys attrs [] pk = Inr pk"
| "range_keys attrs (n # names) pk =
     (case lookup attrs n of
        None \<Rightarrow> range_keys attrs names pk
      | Some attr \<Rightarrow>
          (if is_primaryKey attr then
             (if pk \<noteq> None then Inl multiple_primary_keys
              else range_keys attrs names (Some attr))
           else range_keys attrs names pk))"

text \<open>The last loop of \<^verbatim>\<open>newAttributes\<close>, over the names of the initial values.\<close>

fun range_values ::
  "string \<Rightarrow> (string, attribute) gomap \<Rightarrow> string list \<Rightarrow> error option" where
  "range_values recordName attrs [] = None"
| "range_values recordName attrs (attrName # names) =
     (if lookup attrs attrName = None then Some (ErrUnknownAttribute recordName attrName)
      else range_values recordName attrs names)"

text \<open>
  \<^verbatim>\<open>newAttributes\<close>. \<open>key_order\<close> and \<open>value_order\<close> are the orders in which this
  run iterates over the schema and over the initial values. The schema is
  shared with the caller: the synthesized key is written into that map.
\<close>

definition synthesized_primaryKey :: attribute where
  "synthesized_primaryKey = PrimaryKey (IntAttr defaultPrimaryKeyName [])"

definition newAttributes ::
  "string \<Rightarrow> (string, attribute) gomap \<Rightarrow> (string, val) gomap
     \<Rightarrow> string list \<Rightarrow> string list \<Rightarrow> error + attributes" where
  "newAttributes recordName attrs vals key_order value_order =
     (case range_keys attrs key_order None of
        Inl err \<Rightarrow> Inl err
      | Inr primaryKey \<Rightarrow>
          (if lookup attrs defaultPrimaryKeyName \<noteq> None then Inl not_a_primary_key
           else
             (case (if primaryKey = None
                    then (case store attrs defaultPrimaryKeyName synthesized_primaryKey of
                            Inl err \<Rightarrow> Inl err
                          | Inr attrs' \<Rightarrow> Inr (Some synthesized_primaryKey, attrs'))
                    else Inr (primaryKey, attrs)) of
                Inl err \<Rightarrow> Inl err
              | Inr (primaryKey', attrs') \<Rightarrow>
                  (case range_values recordName attrs' value_order of
                     Some err \<Rightarrow> Inl err
                   | None \<Rightarrow>
                       Inr \<lparr>attr_recordName = recordName, attr_primaryKey = primaryKey',
                            attr_keys = attrs', attr_values = vals\<rparr>))))"

definition HasAttribute :: "attributes \<Rightarrow> string \<Rightarrow> bool" where
  "HasAttribute a attrName = (lookup (attr_keys a) attrName \<noteq> None)"

text \<open>
  \<^verbatim>\<open>AssignAttribute\<close> has a pointer receiver: the model returns the error (\<open>None\<close>
  is nil) and the registry after the call.
\<close>

definition AssignAttribute ::
  "attributes \<Rightarrow> string \<Rightarrow> val \<Rightarrow> error option \<times> attributes" where
  "AssignAttribute a attrName v =
     (case lookup (attr_keys a) attrName of
        None \<Rightarrow> (Some (ErrUnknownAttribute (attr_recordName a) attrName), a)
      | Some attr \<Rightarrow>
          (case Validate attr v of
             Some err \<Rightarrow> (Some err, a)
           | None \<Rightarrow>
               (let a1 = (if attr_values a = None then a\<lparr>attr_values := Some Map.empty\<rparr> else a)
                in case store (attr_values a1) attrName v of
                     Inl err \<Rightarrow> (Some err, a1)
                   | Inr values' \<Rightarrow> (None, a1\<lparr>attr_values := values'\<rparr>))))"

definition AccessAttribute :: "attributes \<Rightarrow> string \<Rightarrow> val" where
  "AccessAttribute a attrName =
     (if \<not> HasAttribute a attrName then NilV
      else case lookup (attr_values a) attrName of None \<Rightarrow> NilV | Some v \<Rightarrow> v)"

section \<open>Predicates of the claims and concrete instances\<close>

text \<open>An iteration order of a map: each key of the map exactly once.\<close>

definition is_order :: "'k set \<Rightarrow> 'k list \<Rightarrow> bool" where
  "is_order ks names = (distinct names \<and> set names = ks)"

text \<open>
  The registries the source can produce: \<^verbatim>\<open>newAssociations\<close> builds one, and
  \<^verbatim>\<open>delegateAccessors\<close>, \<^verbatim>\<open>copy\<close>, \<^verbatim>\<open>Association\<close> and \<^verbatim>\<open>Collection\<close> are the
  operations that return or leave behind a registry.
\<close>

inductive constructed :: "associations \<Rightarrow> bool" where
  constructed_new: "constructed (newAssociations recordName assocs reflect r)"
| constructed_delegate: "constructed a \<Longrightarrow> constructed (delegateAccessors a r)"
| constructed_copy: "constructed a \<Longrightarrow> constructed (copy a r)"
| constructed_Association: "constructed a \<Longrightarrow> constructed (fst (snd (Association c a n)))"
| constructed_Collection: "constructed a \<Longrightarrow> constructed (fst (snd (Collection c a n)))"

code_pred constructed .

text \<open>The schema holds, under the name \<open>n\<close>, an attribute marked as primary key.\<close>

definition marked_primary :: "(string, attribute) gomap \<Rightarrow> string \<Rightarrow> bool" where
  "marked_primary attrs n =
     (case lookup attrs n of None \<Rightarrow> False | Some attr \<Rightarrow> is_primaryKey attr)"

text \<open>
  Modelled from the spec: an execution engine for the concrete instances, a
  table of rows on which \<^verbatim>\<open>ToA\<close> returns the rows that satisfy every predicate
  of the relation, cut at its limit, and \<^verbatim>\<open>Find\<close> returns the row with the
  given primary key or an error. The column \<open>id\<close> of a row is its \<open>rec_id\<close>.
\<close>

definition row_value :: "activerecord \<Rightarrow> string \<Rightarrow> val" where
  "row_value r column = (if column = defaultPrimaryKeyName then ID r else Attribute r column)"

definition row_matches :: "(string \<times> val) list \<Rightarrow> activerecord \<Rightarrow> bool" where
  "row_matches preds r = list_all (\<lambda>(column, v). row_value r column = v) preds"

definition table_ToA :: "activerecord list \<Rightarrow> relation \<Rightarrow> error + activerecord list" where
  "table_ToA rows q =
     (let found = filter (row_matches (rel_where q)) rows
      in Inr (case rel_limit q of None \<Rightarrow> found | Some n \<Rightarrow> take (nat n) found))"

definition table_Find :: "activerecord list \<Rightarrow> relation \<Rightarrow> val \<Rightarrow> error + activerecord option" where
  "table_Find rows q v =
     (case filter (\<lambda>r. ID r = v) rows of
        [] \<Rightarrow> Inl (ErrorNew ''record not found'')
      | r # _ \<Rightarrow> Inr (Some r))"

text \<open>Lower-casing of the ASCII letters, for the concrete instances.\<close>

definition ascii_ToLower :: "string \<Rightarrow> string" where
  "ascii_ToLower s =
     map (\<lambda>ch. case map_of (zip ''ABCDEFGHIJKLMNOPQRSTUVWXYZ'' ''abcdefghijklmnopqrstuvwxyz'') ch of
                 Some l \<Rightarrow> l | None \<Rightarrow> ch) s"

text \<open>
  The rendering of a record slice for the concrete instances, as \<^verbatim>\<open>fmt\<close> prints a
  slice with \<^verbatim>\<open>%s\<close>: the elements separated by spaces, in square brackets; a
  record is rendered as its name.
\<close>

fun join_words :: "string list \<Rightarrow> string" where
  "join_words [] = []"
| "join_words [w] = w"
| "join_words (w # ws) = w @ '' '' @ join_words ws"

definition show_records :: "activerecord list \<Rightarrow> string" where
  "show_records records = ''['' @ join_words (map rec_name records) @ '']''"

definition table_engine :: "activerecord list \<Rightarrow> collaborators" where
  "table_engine rows =
     \<lparr>rel_Find = table_Find rows, rel_ToA = table_ToA rows,
      strings_ToLower = ascii_ToLower, fmt_records = show_records\<rparr>"

definition owners :: relation where
  "owners = \<lparr>rel_name = ''Owner'', rel_ctx = 0, rel_where = [], rel_limit = None\<rparr>"

definition targets :: relation where
  "targets = \<lparr>rel_name = ''target'', rel_ctx = 0, rel_where = [], rel_limit = None\<rparr>"

definition unknown_relation :: error where
  "unknown_relation = ErrorNew ''unknown relation''"

definition only_target :: "string \<Rightarrow> error + relation" where
  "only_target n = (if n = ''target'' then Inr targets else Inl unknown_relation)"

definition the_owner :: activerecord where
  "the_owner = \<lparr>rec_name = ''Owner'', rec_ctx = 7, rec_id = IntV 1,
                 rec_attrs = [(''target_id'', IntV 5)]\<rparr>"

definition widget :: activerecord where
  "widget = \<lparr>rec_name = ''target'', rec_ctx = 0, rec_id = IntV 5,
              rec_attrs = [(''name'', StrV ''widget'')]\<rparr>"

definition gadget :: activerecord where
  "gadget = \<lparr>rec_name = ''target'', rec_ctx = 0, rec_id = IntV 1,
              rec_attrs = [(''name'', StrV ''gadget'')]\<rparr>"

definition to_target :: resolver where
  "to_target = \<lparr>owner = owners, reflection = only_target,
                 targetName = ''target'', foreignKey = []\<rparr>"

definition to_target_by_owner_ref :: resolver where
  "to_target_by_owner_ref = to_target\<lparr>foreignKey := ''owner_ref''\<rparr>"

definition to_nothing :: resolver where
  "to_nothing = to_target\<lparr>targetName := ''nothing''\<rparr>"

definition gadget2 :: activerecord where
  "gadget2 = \<lparr>rec_name = ''target'', rec_ctx = 0, rec_id = IntV 1,
               rec_attrs = [(''name'', StrV ''second gadget'')]\<rparr>"

definition database_down :: error where
  "database_down = ErrorNew ''database is down''"

definition failing_Find :: "relation \<Rightarrow> val \<Rightarrow> error + activerecord option" where
  "failing_Find q v = Inl database_down"

definition failing_ToA :: "relation \<Rightarrow> error + activerecord list" where
  "failing_ToA q = Inl database_down"

definition failing_engine :: collaborators where
  "failing_engine =
     \<lparr>rel_Find = failing_Find, rel_ToA = failing_ToA,
      strings_ToLower = ascii_ToLower, fmt_records = show_records\<rparr>"

definition has_one_query :: relation where
  "has_one_query = \<lparr>rel_name = ''target'', rel_ctx = 7, rel_where = [(''id'', IntV 1)],
                     rel_limit = Some 2\<rparr>"

definition registry :: associations where
  "registry =
     \<lparr>assoc_recordName = ''Owner'', assoc_rec = the_owner, assoc_reflection = only_target,
      assoc_keys = [''target'' \<mapsto> BelongsTo to_target, ''targets'' \<mapsto> HasMany to_target,
                    ''one'' \<mapsto> HasOne to_target],
      assoc_values = Map.empty\<rparr>"

definition cached_registry :: associations where
  "cached_registry =
     registry\<lparr>assoc_values := [''target'' \<mapsto> Some gadget]\<rparr>"

definition positive :: "val \<Rightarrow> error option" where
  "positive v =
     (case v of
        IntV i \<Rightarrow> (if 0 < i then None else Some (ErrorNew ''must be positive''))
      | _ \<Rightarrow> Some (ErrorNew ''must be an integer''))"

definition person_schema :: "(string, attribute) gomap" where
  "person_schema =
     Some [''name'' \<mapsto> StringAttr ''name'' [], ''age'' \<mapsto> IntAttr ''age'' [positive]]"

definition person :: attributes where
  "person = \<lparr>attr_recordName = ''person'', attr_primaryKey = Some synthesized_primaryKey,
              attr_keys = person_schema, attr_values = None\<rparr>"

definition keyed_schema :: "(string, attribute) gomap" where
  "keyed_schema = Some [''uid'' \<mapsto> PrimaryKey (StringAttr ''uid'' []),
                         ''name'' \<mapsto> StringAttr ''name'' []]"

definition two_keys_schema :: "(string, attribute) gomap" where
  "two_keys_schema = Some [''a'' \<mapsto> PrimaryKey (IntAttr ''a'' []),
                            ''b'' \<mapsto> PrimaryKey (StringAttr ''b'' [])]"

definition plain_id_schema :: "(string, attribute) gomap" where
  "plain_id_schema = Some [''id'' \<mapsto> IntAttr ''id'' []]"

definition plain_id_two_keys_schema :: "(string, attribute) gomap" where
  "plain_id_two_keys_schema =
     Some [''id'' \<mapsto> IntAttr ''id'' [], ''a'' \<mapsto> PrimaryKey (IntAttr ''a'' []),
           ''b'' \<mapsto> PrimaryKey (StringAttr ''b'' [])]"

definition primary_id_schema :: "(string, attribute) gomap" where
  "primary_id_schema = Some [''id'' \<mapsto> PrimaryKey (IntAttr ''id'' [])]"

section \<open>Facts about the concrete instances\<close>

lemma has_one_query_eq:
  "has_one_query = Limit (Where (WithContext targets (Context the_owner))
                            (HasOne_AssociationForeignKey a) (ID the_owner)) 2"
  by (simp add: has_one_query_def Limit_def Where_def WithContext_def targets_def Context_def
      the_owner_def HasOne_AssociationForeignKey_def defaultPrimaryKeyName_def ID_def)

lemma to_target_reflection: "reflection to_target (targetName to_target) = Inr targets"
  by (simp add: to_target_def only_target_def)

lemma to_nothing_reflection: "reflection to_nothing (targetName to_nothing) = Inl unknown_relation"
  by (simp add: to_nothing_def to_target_def only_target_def)

lemma table_no_row: "rel_ToA (table_engine [widget]) has_one_query = Inr []"
  by (simp add: table_engine_def table_ToA_def has_one_query_def row_matches_def row_value_def
      defaultPrimaryKeyName_def ID_def widget_def)

lemma table_one_row: "rel_ToA (table_engine [widget, gadget]) has_one_query = Inr [gadget]"
  by (simp add: table_engine_def table_ToA_def has_one_query_def row_matches_def row_value_def
      defaultPrimaryKeyName_def ID_def widget_def gadget_def)

lemma table_three_rows:
  "rel_ToA (table_engine [gadget, widget, gadget2, gadget]) has_one_query = Inr [gadget, gadget2]"
  by (simp add: table_engine_def table_ToA_def has_one_query_def row_matches_def row_value_def
      defaultPrimaryKeyName_def ID_def widget_def gadget_def gadget2_def)

lemma failing_query: "rel_ToA failing_engine has_one_query = Inl database_down"
  by (simp add: failing_engine_def failing_ToA_def)


lemma registry_first_call:
  "Association (table_engine [widget]) registry ''target''
     = (Inr (Some widget), registry,
        [CallReflection ''target'', CallFind (WithContext targets 7) (IntV 5)])"
  by (simp add: Association_def get_def HasAssociation_def registry_def
      BelongsTo_AccessAssociation_def to_target_def only_target_def Attribute_def the_owner_def
      BelongsTo_AssociationForeignKey_def defaultPrimaryKeyName_def WithContext_def Context_def
      table_engine_def table_Find_def ID_def widget_def Let_def)

lemma person_schema_order: "is_order (keys_of person_schema) [''age'', ''name'']"
  by (auto simp add: is_order_def keys_of_def person_schema_def)

lemma keyed_schema_order: "is_order (keys_of keyed_schema) [''name'', ''uid'']"
  by (auto simp add: is_order_def keys_of_def keyed_schema_def)

lemma two_keys_schema_order: "is_order (keys_of two_keys_schema) [''b'', ''a'']"
  by (auto simp add: is_order_def keys_of_def two_keys_schema_def)

lemma plain_id_schema_order: "is_order (keys_of plain_id_schema) [''id'']"
  by (auto simp add: is_order_def keys_of_def plain_id_schema_def)

lemma person_schema_unmarked: "\<not> marked_primary person_schema n"
  by (simp add: marked_primary_def lookup_def person_schema_def)

lemma plain_id_schema_unmarked: "\<not> marked_primary plain_id_schema n"
  by (simp add: marked_primary_def lookup_def plain_id_schema_def)

lemma keyed_schema_marked: "marked_primary keyed_schema n \<longleftrightarrow> n = ''uid''"
  by (simp add: marked_primary_def lookup_def keyed_schema_def)

section \<open>Foreign keys of the resolvers\<close>

text \<open>
  Claim C1, as stated, at a \<^verbatim>\<open>HasOne\<close> with the explicit foreign key
  \<open>owner_ref\<close>: \<^verbatim>\<open>AssociationForeignKey\<close> returns the default primary-key name
  \<open>id\<close>, not the override.
\<close>

theorem C1_has_one_ignores_override:
  "explicit_foreignKey (HasOne to_target_by_owner_ref) = ''owner_ref''
   \<and> AssociationForeignKey (table_engine []) (HasOne to_target_by_owner_ref) = ''id''
   \<and> AssociationForeignKey (table_engine []) (HasOne to_target_by_owner_ref)
       \<noteq> explicit_foreignKey (HasOne to_target_by_owner_ref)"
  by (simp add: to_target_by_owner_ref_def to_target_def HasOne_AssociationForeignKey_def
      defaultPrimaryKeyName_def)

text \<open>
  Claim C1, amended: for \<^verbatim>\<open>BelongsTo\<close> and \<^verbatim>\<open>HasMany\<close>, an explicit foreign key
  set on the resolver is what \<^verbatim>\<open>AssociationForeignKey\<close> returns, and the default
  of the kind (target name and \<open>_id\<close>; lower-cased owner name and \<open>_id\<close>) is
  returned when no override is set. For \<^verbatim>\<open>HasOne\<close>, \<^verbatim>\<open>AssociationForeignKey\<close>
  returns the default primary-key name \<open>id\<close> whether an override is set or not.
\<close>

theorem C1_foreign_key_override:
  "(foreignKey a \<noteq> [] \<longrightarrow>
      AssociationForeignKey c (BelongsTo a) = foreignKey a
      \<and> AssociationForeignKey c (HasMany a) = foreignKey a)
   \<and> (foreignKey a = [] \<longrightarrow>
      AssociationForeignKey c (BelongsTo a) = targetName a @ ''_id''
      \<and> AssociationForeignKey c (HasMany a) = strings_ToLower c (Name (owner a)) @ ''_id'')
   \<and> AssociationForeignKey c (HasOne a) = ''id''"
  by (simp add: BelongsTo_AssociationForeignKey_def HasMany_AssociationForeignKey_def
      HasOne_AssociationForeignKey_def defaultPrimaryKeyName_def)

text \<open>
  Claim C1, amended, on resolvers with the explicit foreign key \<open>owner_ref\<close> and
  with none.
\<close>

theorem C1_foreign_key_override_witness:
  "foreignKey to_target_by_owner_ref \<noteq> [] \<and> foreignKey to_target = []
   \<and> AssociationForeignKey (table_engine []) (BelongsTo to_target_by_owner_ref) = ''owner_ref''
   \<and> AssociationForeignKey (table_engine []) (HasMany to_target_by_owner_ref) = ''owner_ref''
   \<and> AssociationForeignKey (table_engine []) (BelongsTo to_target) = ''target_id''
   \<and> AssociationForeignKey (table_engine []) (HasMany to_target) = ''owner_id''
   \<and> AssociationForeignKey (table_engine []) (HasOne to_target_by_owner_ref) = ''id''"
  using C1_foreign_key_override [of to_target_by_owner_ref "table_engine []"]
    C1_foreign_key_override [of to_target "table_engine []"]
  by (simp add: to_target_by_owner_ref_def to_target_def table_engine_def owners_def
      Name_def ascii_ToLower_def)

text \<open>
  Claim C7: with no explicit override, the foreign key of a \<^verbatim>\<open>BelongsTo\<close> with
  target name \<open>t\<close> is \<open>t\<close> followed by \<open>_id\<close>, \<open>t\<close> taken as it is, and the
  foreign key of a \<^verbatim>\<open>HasMany\<close> whose owner relation is named \<open>N\<close> is the
  lower-cased \<open>N\<close> followed by \<open>_id\<close>.
\<close>

theorem C7_default_foreign_keys:
  assumes "foreignKey a = []"
  shows "BelongsTo_AssociationForeignKey a = targetName a @ ''_id''
    \<and> HasMany_AssociationForeignKey c a = strings_ToLower c (Name (owner a)) @ ''_id''"
  using assms
  by (simp add: BelongsTo_AssociationForeignKey_def HasMany_AssociationForeignKey_def
      defaultPrimaryKeyName_def)

text \<open>
  Claim C7 for the target name \<open>Target\<close> and the owner relation \<open>Owner\<close>.
\<close>

theorem C7_default_foreign_keys_witness:
  "foreignKey (to_target\<lparr>targetName := ''Target''\<rparr>) = []
   \<and> BelongsTo_AssociationForeignKey (to_target\<lparr>targetName := ''Target''\<rparr>) = ''Target_id''
   \<and> HasMany_AssociationForeignKey (table_engine []) (to_target\<lparr>targetName := ''Target''\<rparr>)
       = ''owner_id''"
proof -
  have fk: "foreignKey (to_target\<lparr>targetName := ''Target''\<rparr>) = []"
    by (simp add: to_target_def)
  show ?thesis
    using fk C7_default_foreign_keys [OF fk, of "table_engine []"]
    by (simp add: to_target_def table_engine_def owners_def Name_def ascii_ToLower_def)
qed

section \<open>Fetching through a resolver\<close>

text \<open>
  Claim C9: \<^verbatim>\<open>HasMany.AccessCollection\<close> executes nothing. When the reflection of the
  target name succeeds, it returns the target relation with the context of the
  owner and with the predicate "foreign key = \<^verbatim>\<open>owner.ID()\<close>" added, and the only
  call it has made is the reflection; when the reflection fails, it returns
  that error. No call of \<^verbatim>\<open>Find\<close> or \<^verbatim>\<open>ToA\<close> is made in either case.
\<close>

theorem C9_has_many_is_lazy:
  "(reflection a (targetName a) = Inr rel \<longrightarrow>
      HasMany_AccessCollection c a ownr =
        (Inr (Where (WithContext rel (Context ownr)) (HasMany_AssociationForeignKey c a) (ID ownr)),
         [CallReflection (targetName a)])
      \<and> rel_ctx (Where (WithContext rel (Context ownr)) (HasMany_AssociationForeignKey c a) (ID ownr))
          = Context ownr
      \<and> rel_where (Where (WithContext rel (Context ownr)) (HasMany_AssociationForeignKey c a) (ID ownr))
          = rel_where rel @ [(HasMany_AssociationForeignKey c a, ID ownr)])
   \<and> (reflection a (targetName a) = Inl err \<longrightarrow>
      HasMany_AccessCollection c a ownr = (Inl err, [CallReflection (targetName a)]))
   \<and> (\<forall>q v. CallFind q v \<notin> set (snd (HasMany_AccessCollection c a ownr)))
   \<and> (\<forall>q. CallToA q \<notin> set (snd (HasMany_AccessCollection c a ownr)))"
  by (simp add: HasMany_AccessCollection_def Where_def WithContext_def Let_def split: sum.splits)

text \<open>
  Claim C9 for an owner with primary key 1 and context 7: a known and an
  unknown target kind.
\<close>

theorem C9_has_many_is_lazy_witness:
  "reflection to_target (targetName to_target) = Inr targets
   \<and> HasMany_AccessCollection (table_engine []) to_target the_owner =
       (Inr \<lparr>rel_name = ''target'', rel_ctx = 7, rel_where = [(''owner_id'', IntV 1)],
             rel_limit = None\<rparr>,
        [CallReflection ''target''])
   \<and> reflection to_nothing (targetName to_nothing) = Inl unknown_relation
   \<and> HasMany_AccessCollection (table_engine []) to_nothing the_owner =
       (Inl unknown_relation, [CallReflection ''nothing''])"
  using C9_has_many_is_lazy [of to_target targets "table_engine []" the_owner unknown_relation]
    C9_has_many_is_lazy [of to_nothing targets "table_engine []" the_owner unknown_relation]
  by (simp add: to_nothing_def to_target_def only_target_def targets_def the_owner_def
      table_engine_def owners_def Name_def ascii_ToLower_def Where_def WithContext_def
      Context_def ID_def HasMany_AssociationForeignKey_def defaultPrimaryKeyName_def)

text \<open>
  Claim C4: \<^verbatim>\<open>HasOne.AccessAssociation\<close> returns a reflection error as it is;
  otherwise it executes one query, the target relation narrowed by
  "foreign key = \<^verbatim>\<open>owner.ID()\<close>" and limited to two rows, and returns the error of
  that query, \<open>Ok(nil)\<close> for no row, \<open>Ok(record)\<close> for one row, and an
  \<^verbatim>\<open>ErrAssociation\<close> for two rows or more, whose message is
  \<open>declared 'has_one' association, but has many: \<close> followed by the rendering
  of the rows.
\<close>

theorem C4_has_one_cardinality:
  assumes "q = Limit (Where (WithContext rel (Context ownr)) (HasOne_AssociationForeignKey a) (ID ownr)) 2"
  shows "(reflection a (targetName a) = Inl err \<longrightarrow>
            HasOne_AccessAssociation c a ownr = (Inl err, [CallReflection (targetName a)]))
   \<and> (reflection a (targetName a) = Inr rel \<longrightarrow>
        rel_limit q = Some 2
        \<and> rel_where q = rel_where rel @ [(HasOne_AssociationForeignKey a, ID ownr)]
        \<and> snd (HasOne_AccessAssociation c a ownr) = [CallReflection (targetName a), CallToA q]
        \<and> (rel_ToA c q = Inl err \<longrightarrow> fst (HasOne_AccessAssociation c a ownr) = Inl err)
        \<and> (rel_ToA c q = Inr [] \<longrightarrow> fst (HasOne_AccessAssociation c a ownr) = Inr None)
        \<and> (rel_ToA c q = Inr [r] \<longrightarrow> fst (HasOne_AccessAssociation c a ownr) = Inr (Some r))
        \<and> (rel_ToA c q = Inr records \<and> 2 \<le> length records \<longrightarrow>
             fst (HasOne_AccessAssociation c a ownr)
               = Inl (ErrAssociation
                        (''declared 'has_one' association, but has many: ''
                           @ fmt_records c records))))"
  using assms
  by (auto simp add: HasOne_AccessAssociation_def has_one_message_def Limit_def Where_def
      WithContext_def Let_def split: sum.splits list.splits)

text \<open>
  Claim C4 on a table of rows, for an owner with primary key 1: an unknown
  target kind, a query that fails, no matching row, one matching row, and three
  matching rows of which the limit lets two through.
\<close>

theorem C4_has_one_cardinality_witness:
  "HasOne_AccessAssociation (table_engine []) to_nothing the_owner
     = (Inl unknown_relation, [CallReflection ''nothing''])
   \<and> rel_limit has_one_query = Some 2
   \<and> snd (HasOne_AccessAssociation (table_engine [widget]) to_target the_owner)
       = [CallReflection ''target'', CallToA has_one_query]
   \<and> fst (HasOne_AccessAssociation failing_engine to_target the_owner) = Inl database_down
   \<and> fst (HasOne_AccessAssociation (table_engine [widget]) to_target the_owner) = Inr None
   \<and> fst (HasOne_AccessAssociation (table_engine [widget, gadget]) to_target the_owner)
       = Inr (Some gadget)
   \<and> fst (HasOne_AccessAssociation (table_engine [gadget, widget, gadget2, gadget]) to_target
            the_owner)
       = Inl (ErrAssociation
                ''declared 'has_one' association, but has many: [target target]'')"
proof -
  have names: "targetName to_nothing = ''nothing''" "targetName to_target = ''target''"
    by (simp_all add: to_nothing_def to_target_def)
  have two: "2 \<le> length [gadget, gadget2]" by simp
  have shown: "fmt_records (table_engine [gadget, widget, gadget2, gadget]) [gadget, gadget2]
      = ''[target target]''"
    by (simp add: table_engine_def show_records_def gadget_def gadget2_def)
  show ?thesis
    using
      C4_has_one_cardinality [OF has_one_query_eq, where a = to_nothing and err = unknown_relation
        and c = "table_engine []"]
      C4_has_one_cardinality [OF has_one_query_eq, where a = to_target and err = database_down
        and c = failing_engine]
      C4_has_one_cardinality [OF has_one_query_eq, where a = to_target
        and c = "table_engine [widget]"]
      C4_has_one_cardinality [OF has_one_query_eq, where a = to_target and r = gadget
        and c = "table_engine [widget, gadget]"]
      C4_has_one_cardinality [OF has_one_query_eq, where a = to_target
        and records = "[gadget, gadget2]"
        and c = "table_engine [gadget, widget, gadget2, gadget]"]
      to_target_reflection to_nothing_reflection table_no_row table_one_row table_three_rows
      failing_query names two shown
    by simp
qed

section \<open>Association registry: reflection and dispatch\<close>





lemma Association_leaves_registry: "fst (snd (Association c a n)) = a"
  by (simp add: Association_def split: option.splits association.splits prod.splits)

lemma Collection_leaves_registry: "fst (snd (Collection c a n)) = a"
  by (simp add: Collection_def split: option.splits association.splits prod.splits)

lemma constructed_cache_empty: "constructed a \<Longrightarrow> assoc_values a = Map.empty"
proof (induction rule: constructed.induct)
  case (constructed_new recordName assocs reflect r)
  show ?case by (simp add: newAssociations_def)
next
  case (constructed_delegate a r)
  then show ?case by (simp add: delegateAccessors_def)
next
  case (constructed_copy a r)
  then show ?case by (simp add: copy_def)
next
  case (constructed_Association a c n)
  then show ?case by (simp add: Association_leaves_registry)
next
  case (constructed_Collection a c n)
  then show ?case by (simp add: Collection_leaves_registry)
qed

lemma registry_constructed: "constructed registry"
proof -
  have built: "registry =
      newAssociations ''Owner''
        [''target'' \<mapsto> BelongsTo to_target, ''targets'' \<mapsto> HasMany to_target,
         ''one'' \<mapsto> HasOne to_target]
        only_target the_owner"
    by (simp add: registry_def newAssociations_def)
  show ?thesis unfolding built by (rule constructed_new)
qed

text \<open>
  Claim C8: for an undeclared name, \<^verbatim>\<open>Association\<close> and \<^verbatim>\<open>Collection\<close> both return
  the error \<^verbatim>\<open>ErrUnknownAssociation\<close> with the name of the bound record and the
  association name. For a name declared as \<^verbatim>\<open>HasMany\<close>, \<^verbatim>\<open>Association\<close> on a
  registry the source has produced returns the \<^verbatim>\<open>ErrAssociation\<close> with the message
  that the name is not a singular association. For a name declared as
  \<^verbatim>\<open>BelongsTo\<close> or \<^verbatim>\<open>HasOne\<close>, \<^verbatim>\<open>Collection\<close> returns the \<^verbatim>\<open>ErrAssociation\<close> with
  the message that the name is not a collection association, and no
  collection. None of these calls reaches a collaborator or changes the
  registry.
\<close>

theorem C8_dispatch_errors:
  "(assoc_keys a n = None \<longrightarrow>
      Association c a n = (Inl (ErrUnknownAssociation (rec_name (assoc_rec a)) n), a, [])
      \<and> Collection c a n = (Inl (ErrUnknownAssociation (rec_name (assoc_rec a)) n), a, []))
   \<and> (constructed a \<and> assoc_keys a n = Some (HasMany h) \<longrightarrow>
      Association c a n =
        (Inl (ErrAssociation (CHR 0x27 # n @ CHR 0x27 # '' is not a singular association'')),
         a, []))
   \<and> (assoc_keys a n = Some (BelongsTo h) \<or> assoc_keys a n = Some (HasOne h) \<longrightarrow>
      Collection c a n =
        (Inl (ErrAssociation (CHR 0x27 # n @ CHR 0x27 # '' is not a collection association'')),
         a, []))"
proof -
  have unknown: "assoc_keys a n = None \<longrightarrow>
      Association c a n = (Inl (ErrUnknownAssociation (rec_name (assoc_rec a)) n), a, [])
      \<and> Collection c a n = (Inl (ErrUnknownAssociation (rec_name (assoc_rec a)) n), a, [])"
    by (simp add: Association_def Collection_def get_def HasAssociation_def)
  have many: "constructed a \<and> assoc_keys a n = Some (HasMany h) \<longrightarrow>
      Association c a n =
        (Inl (ErrAssociation (CHR 0x27 # n @ CHR 0x27 # '' is not a singular association'')),
         a, [])"
  proof (rule impI)
    assume h: "constructed a \<and> assoc_keys a n = Some (HasMany h)"
    then have "assoc_values a n = None"
      by (simp add: constructed_cache_empty)
    then show "Association c a n =
        (Inl (ErrAssociation (CHR 0x27 # n @ CHR 0x27 # '' is not a singular association'')),
         a, [])"
      using h by (simp add: Association_def get_def HasAssociation_def not_singular_message_def)
  qed
  have singular: "assoc_keys a n = Some (BelongsTo h) \<or> assoc_keys a n = Some (HasOne h) \<longrightarrow>
      Collection c a n =
        (Inl (ErrAssociation (CHR 0x27 # n @ CHR 0x27 # '' is not a collection association'')),
         a, [])"
    by (auto simp add: Collection_def get_def HasAssociation_def not_collection_message_def)
  show ?thesis by (rule conjI [OF unknown conjI [OF many singular]])
qed

text \<open>
  Claim C8 on the registry that \<^verbatim>\<open>newAssociations\<close> builds for an owner: an
  undeclared name, the \<^verbatim>\<open>HasMany\<close> name and the two singular names.
\<close>

theorem C8_dispatch_errors_witness:
  "assoc_keys registry ''nothing'' = None
   \<and> Association (table_engine []) registry ''nothing''
       = (Inl (ErrUnknownAssociation ''Owner'' ''nothing''), registry, [])
   \<and> Collection (table_engine []) registry ''nothing''
       = (Inl (ErrUnknownAssociation ''Owner'' ''nothing''), registry, [])
   \<and> constructed registry
   \<and> assoc_keys registry ''targets'' = Some (HasMany to_target)
   \<and> Association (table_engine []) registry ''targets''
       = (Inl (ErrAssociation (CHR 0x27 # ''targets'' @ CHR 0x27 # '' is not a singular association'')),
          registry, [])
   \<and> assoc_keys registry ''target'' = Some (BelongsTo to_target)
   \<and> Collection (table_engine []) registry ''target''
       = (Inl (ErrAssociation (CHR 0x27 # ''target'' @ CHR 0x27 # '' is not a collection association'')),
          registry, [])
   \<and> assoc_keys registry ''one'' = Some (HasOne to_target)
   \<and> Collection (table_engine []) registry ''one''
       = (Inl (ErrAssociation (CHR 0x27 # ''one'' @ CHR 0x27 # '' is not a collection association'')),
          registry, [])"
proof -
  have keys: "assoc_keys registry ''nothing'' = None"
      "assoc_keys registry ''targets'' = Some (HasMany to_target)"
      "assoc_keys registry ''target'' = Some (BelongsTo to_target)"
      "assoc_keys registry ''one'' = Some (HasOne to_target)"
    by (simp_all add: registry_def)
  have name: "rec_name (assoc_rec registry) = ''Owner''"
    by (simp add: registry_def the_owner_def)
  show ?thesis
    using
      C8_dispatch_errors [where a = registry and n = "''nothing''" and c = "table_engine []"]
      C8_dispatch_errors [where a = registry and n = "''targets''" and c = "table_engine []"
        and h = to_target]
      C8_dispatch_errors [where a = registry and n = "''target''" and c = "table_engine []"
        and h = to_target]
      C8_dispatch_errors [where a = registry and n = "''one''" and c = "table_engine []"
        and h = to_target]
      keys name registry_constructed
    by simp
qed

text \<open>
  Claim C2, amended: \<^verbatim>\<open>Association\<close> never changes the registry, so a successful
  resolution does not populate the cache. When the cache holds nothing under a
  name declared as \<^verbatim>\<open>BelongsTo\<close> or \<^verbatim>\<open>HasOne\<close>, every call of \<^verbatim>\<open>Association\<close>
  invokes the resolver: its result and its calls on the collaborators are those
  of \<^verbatim>\<open>AccessAssociation\<close>, which start with the reflection of the target name,
  the cache still holds nothing afterwards, and a second call does the same
  again. When the cache already holds a record under a declared name,
  \<^verbatim>\<open>Association\<close> returns that record without any call to a resolver, and so does
  a second call on the registry the first call leaves.
\<close>

theorem C2_cached_association:
  "fst (snd (Association c a n)) = a
   \<and> (assoc_keys a n \<noteq> None \<and> assoc_values a n = Some r \<longrightarrow>
        Association c a n = (Inr r, a, [])
        \<and> Association c (fst (snd (Association c a n))) n = (Inr r, a, []))
   \<and> (assoc_keys a n = Some (BelongsTo h) \<and> assoc_values a n = None \<longrightarrow>
        Association c a n =
          (fst (BelongsTo_AccessAssociation c h (assoc_rec a)), a,
           snd (BelongsTo_AccessAssociation c h (assoc_rec a)))
        \<and> snd (snd (Association c a n)) \<noteq> []
        \<and> hd (snd (snd (Association c a n))) = CallReflection (targetName h)
        \<and> assoc_values (fst (snd (Association c a n))) n = None
        \<and> Association c (fst (snd (Association c a n))) n = Association c a n)
   \<and> (assoc_keys a n = Some (HasOne h) \<and> assoc_values a n = None \<longrightarrow>
        Association c a n =
          (fst (HasOne_AccessAssociation c h (assoc_rec a)), a,
           snd (HasOne_AccessAssociation c h (assoc_rec a)))
        \<and> snd (snd (Association c a n)) \<noteq> []
        \<and> hd (snd (snd (Association c a n))) = CallReflection (targetName h)
        \<and> assoc_values (fst (snd (Association c a n))) n = None
        \<and> Association c (fst (snd (Association c a n))) n = Association c a n)"
proof -
  have same: "fst (snd (Association c a n)) = a"
    by (rule Association_leaves_registry)
  have cached: "assoc_keys a n \<noteq> None \<and> assoc_values a n = Some r \<longrightarrow>
        Association c a n = (Inr r, a, [])
        \<and> Association c (fst (snd (Association c a n))) n = (Inr r, a, [])"
    unfolding same by (auto simp add: Association_def get_def HasAssociation_def)
  have belongs_calls: "snd (BelongsTo_AccessAssociation c h (assoc_rec a)) \<noteq> []
      \<and> hd (snd (BelongsTo_AccessAssociation c h (assoc_rec a))) = CallReflection (targetName h)"
    by (simp add: BelongsTo_AccessAssociation_def Let_def split: sum.splits)
  have one_calls: "snd (HasOne_AccessAssociation c h (assoc_rec a)) \<noteq> []
      \<and> hd (snd (HasOne_AccessAssociation c h (assoc_rec a))) = CallReflection (targetName h)"
    by (simp add: HasOne_AccessAssociation_def Let_def split: sum.splits list.splits)
  have belongs: "assoc_keys a n = Some (BelongsTo h) \<and> assoc_values a n = None \<longrightarrow>
        Association c a n =
          (fst (BelongsTo_AccessAssociation c h (assoc_rec a)), a,
           snd (BelongsTo_AccessAssociation c h (assoc_rec a)))
        \<and> snd (snd (Association c a n)) \<noteq> []
        \<and> hd (snd (snd (Association c a n))) = CallReflection (targetName h)
        \<and> assoc_values (fst (snd (Association c a n))) n = None
        \<and> Association c (fst (snd (Association c a n))) n = Association c a n"
  proof (rule impI)
    assume h: "assoc_keys a n = Some (BelongsTo h) \<and> assoc_values a n = None"
    then have call: "Association c a n =
          (fst (BelongsTo_AccessAssociation c h (assoc_rec a)), a,
           snd (BelongsTo_AccessAssociation c h (assoc_rec a)))"
      by (simp add: Association_def get_def HasAssociation_def split: prod.splits)
    show "Association c a n =
          (fst (BelongsTo_AccessAssociation c h (assoc_rec a)), a,
           snd (BelongsTo_AccessAssociation c h (assoc_rec a)))
        \<and> snd (snd (Association c a n)) \<noteq> []
        \<and> hd (snd (snd (Association c a n))) = CallReflection (targetName h)
        \<and> assoc_values (fst (snd (Association c a n))) n = None
        \<and> Association c (fst (snd (Association c a n))) n = Association c a n"
      unfolding same using call belongs_calls h by simp
  qed
  have one: "assoc_keys a n = Some (HasOne h) \<and> assoc_values a n = None \<longrightarrow>
        Association c a n =
          (fst (HasOne_AccessAssociation c h (assoc_rec a)), a,
           snd (HasOne_AccessAssociation c h (assoc_rec a)))
        \<and> snd (snd (Association c a n)) \<noteq> []
        \<and> hd (snd (snd (Association c a n))) = CallReflection (targetName h)
        \<and> assoc_values (fst (snd (Association c a n))) n = None
        \<and> Association c (fst (snd (Association c a n))) n = Association c a n"
  proof (rule impI)
    assume h: "assoc_keys a n = Some (HasOne h) \<and> assoc_values a n = None"
    then have call: "Association c a n =
          (fst (HasOne_AccessAssociation c h (assoc_rec a)), a,
           snd (HasOne_AccessAssociation c h (assoc_rec a)))"
      by (simp add: Association_def get_def HasAssociation_def split: prod.splits)
    show "Association c a n =
          (fst (HasOne_AccessAssociation c h (assoc_rec a)), a,
           snd (HasOne_AccessAssociation c h (assoc_rec a)))
        \<and> snd (snd (Association c a n)) \<noteq> []
        \<and> hd (snd (snd (Association c a n))) = CallReflection (targetName h)
        \<and> assoc_values (fst (snd (Association c a n))) n = None
        \<and> Association c (fst (snd (Association c a n))) n = Association c a n"
      unfolding same using call one_calls h by simp
  qed
  show ?thesis by (rule conjI [OF same conjI [OF cached conjI [OF belongs one]]])
qed

text \<open>
  Claim C2, amended, on a registry that holds a cached record under the
  \<^verbatim>\<open>BelongsTo\<close> name \<open>target\<close>, and on the registry with an empty cache, for the
  \<^verbatim>\<open>BelongsTo\<close> name \<open>target\<close> and the \<^verbatim>\<open>HasOne\<close> name \<open>one\<close>.
\<close>

theorem C2_cached_association_witness:
  "assoc_keys cached_registry ''target'' \<noteq> None
   \<and> assoc_values cached_registry ''target'' = Some (Some gadget)
   \<and> Association (table_engine [widget]) cached_registry ''target''
       = (Inr (Some gadget), cached_registry, [])
   \<and> Association (table_engine [widget])
         (fst (snd (Association (table_engine [widget]) cached_registry ''target''))) ''target''
       = (Inr (Some gadget), cached_registry, [])
   \<and> assoc_keys registry ''target'' = Some (BelongsTo to_target)
   \<and> assoc_values registry ''target'' = None
   \<and> Association (table_engine [widget, gadget]) registry ''target''
       = (Inr (Some widget), registry,
          [CallReflection ''target'', CallFind (WithContext targets 7) (IntV 5)])
   \<and> Association (table_engine [widget, gadget])
         (fst (snd (Association (table_engine [widget, gadget]) registry ''target''))) ''target''
       = (Inr (Some widget), registry,
          [CallReflection ''target'', CallFind (WithContext targets 7) (IntV 5)])
   \<and> assoc_keys registry ''one'' = Some (HasOne to_target)
   \<and> assoc_values registry ''one'' = None
   \<and> Association (table_engine [widget, gadget]) registry ''one''
       = (Inr (Some gadget), registry, [CallReflection ''target'', CallToA has_one_query])
   \<and> Association (table_engine [widget, gadget])
         (fst (snd (Association (table_engine [widget, gadget]) registry ''one''))) ''one''
       = (Inr (Some gadget), registry, [CallReflection ''target'', CallToA has_one_query])"
proof -
  have key: "assoc_keys cached_registry ''target'' \<noteq> None"
    and val: "assoc_values cached_registry ''target'' = Some (Some gadget)"
    by (simp_all add: cached_registry_def registry_def)
  have keys: "assoc_keys registry ''target'' = Some (BelongsTo to_target)"
      "assoc_keys registry ''one'' = Some (HasOne to_target)"
    and vals: "assoc_values registry ''target'' = None" "assoc_values registry ''one'' = None"
    and bound: "assoc_rec registry = the_owner"
    by (simp_all add: registry_def)
  have belongs: "BelongsTo_AccessAssociation (table_engine [widget, gadget]) to_target the_owner
      = (Inr (Some widget), [CallReflection ''target'', CallFind (WithContext targets 7) (IntV 5)])"
    by (simp add: BelongsTo_AccessAssociation_def to_target_def only_target_def Attribute_def
        the_owner_def BelongsTo_AssociationForeignKey_def defaultPrimaryKeyName_def
        WithContext_def Context_def table_engine_def table_Find_def ID_def widget_def gadget_def
        Let_def)
  have one: "HasOne_AccessAssociation (table_engine [widget, gadget]) to_target the_owner
      = (Inr (Some gadget), [CallReflection ''target'', CallToA has_one_query])"
    using table_one_row to_target_reflection has_one_query_eq [of to_target]
    by (simp add: HasOne_AccessAssociation_def Let_def to_target_def)
  show ?thesis
    using
      C2_cached_association [where a = cached_registry and n = "''target''"
        and r = "Some gadget" and c = "table_engine [widget]"]
      C2_cached_association [where a = registry and n = "''target''" and h = to_target
        and c = "table_engine [widget, gadget]"]
      C2_cached_association [where a = registry and n = "''one''" and h = to_target
        and c = "table_engine [widget, gadget]"]
      key val keys vals bound belongs one
    by simp
qed

text \<open>
  Claim C2, as stated, at a registry with an empty cache: the first call of
  \<^verbatim>\<open>Association\<close> resolves the \<^verbatim>\<open>BelongsTo\<close> to a record, the cache of the
  registry still holds nothing under the name afterwards, and the second call
  makes the same calls on the collaborators again.
\<close>

theorem C2_resolution_is_not_cached:
  "assoc_keys registry ''target'' = Some (BelongsTo to_target)
   \<and> fst (Association (table_engine [widget]) registry ''target'') = Inr (Some widget)
   \<and> assoc_values (fst (snd (Association (table_engine [widget]) registry ''target''))) ''target''
       = None
   \<and> snd (snd (Association (table_engine [widget])
                  (fst (snd (Association (table_engine [widget]) registry ''target''))) ''target''))
       = [CallReflection ''target'', CallFind (WithContext targets 7) (IntV 5)]"
proof -
  have "assoc_keys registry ''target'' = Some (BelongsTo to_target)"
    and "assoc_values registry ''target'' = None"
    by (simp_all add: registry_def)
  then show ?thesis by (simp add: registry_first_call)
qed

section \<open>Attribute registry\<close>

text \<open>
  Claim C6: \<^verbatim>\<open>AssignAttribute\<close> on an undeclared name returns
  \<^verbatim>\<open>ErrUnknownAttribute\<close> and leaves the registry as it was; on a declared
  attribute whose validation rejects the value it returns the validation error
  and leaves the registry as it was; otherwise it returns nil and the registry
  differs only in the value map, which holds the value under the name, the
  map being created first when it was nil.
\<close>

theorem C6_assign_attribute_atomic:
  "(lookup (attr_keys a) n = None \<longrightarrow>
      AssignAttribute a n v = (Some (ErrUnknownAttribute (attr_recordName a) n), a))
   \<and> (lookup (attr_keys a) n = Some attr \<and> Validate attr v = Some err \<longrightarrow>
      AssignAttribute a n v = (Some err, a))
   \<and> (lookup (attr_keys a) n = Some attr \<and> Validate attr v = None \<longrightarrow>
      AssignAttribute a n v =
        (None, a\<lparr>attr_values :=
                    Some ((case attr_values a of None \<Rightarrow> Map.empty | Some m \<Rightarrow> m)(n \<mapsto> v))\<rparr>))"
  by (auto simp add: AssignAttribute_def store_def Let_def split: option.splits)

text \<open>
  Claim C6 on a registry with a string attribute \<open>name\<close>, an integer attribute
  \<open>age\<close> that must be positive, and a nil value map.
\<close>

theorem C6_assign_attribute_atomic_witness:
  "lookup (attr_keys person) ''nick'' = None
   \<and> AssignAttribute person ''nick'' (StrV ''Al'')
       = (Some (ErrUnknownAttribute ''person'' ''nick''), person)
   \<and> lookup (attr_keys person) ''age'' = Some (IntAttr ''age'' [positive])
   \<and> Validate (IntAttr ''age'' [positive]) (IntV 0) = Some (ErrorNew ''must be positive'')
   \<and> AssignAttribute person ''age'' (IntV 0) = (Some (ErrorNew ''must be positive''), person)
   \<and> Validate (IntAttr ''age'' [positive]) (IntV 30) = None
   \<and> AssignAttribute person ''age'' (IntV 30)
       = (None, person\<lparr>attr_values := Some [''age'' \<mapsto> IntV 30]\<rparr>)"
proof -
  have nick: "lookup (attr_keys person) ''nick'' = None"
    and age: "lookup (attr_keys person) ''age'' = Some (IntAttr ''age'' [positive])"
    by (simp_all add: person_def person_schema_def lookup_def)
  have bad: "Validate (IntAttr ''age'' [positive]) (IntV 0) = Some (ErrorNew ''must be positive'')"
    and good: "Validate (IntAttr ''age'' [positive]) (IntV 30) = None"
    by (simp_all add: positive_def)
  have fields: "attr_recordName person = ''person''" "attr_values person = None"
    by (simp_all add: person_def)
  show ?thesis
    using
      C6_assign_attribute_atomic [where a = person and n = "''nick''" and v = "StrV ''Al''"]
      C6_assign_attribute_atomic [where a = person and n = "''age''" and v = "IntV 0"
        and attr = "IntAttr ''age'' [positive]" and err = "ErrorNew ''must be positive''"]
      C6_assign_attribute_atomic [where a = person and n = "''age''" and v = "IntV 30"
        and attr = "IntAttr ''age'' [positive]"]
      nick age bad good fields
    by simp
qed

subsection \<open>The loops of the constructor\<close>

lemma range_keys_unmarked:
  "\<forall>n \<in> set names. \<not> marked_primary attrs n \<Longrightarrow> range_keys attrs names pk = Inr pk"
  by (induction names arbitrary: pk) (auto simp add: marked_primary_def split: option.splits)

lemma range_keys_seen:
  "pk \<noteq> None \<Longrightarrow> n \<in> set names \<Longrightarrow> marked_primary attrs n
     \<Longrightarrow> range_keys attrs names pk = Inl multiple_primary_keys"
  by (induction names arbitrary: pk) (auto simp add: marked_primary_def split: option.splits)

lemma range_keys_one:
  "distinct names \<Longrightarrow> k \<in> set names \<Longrightarrow> lookup attrs k = Some p \<Longrightarrow> is_primaryKey p
     \<Longrightarrow> \<forall>n \<in> set names. marked_primary attrs n \<longrightarrow> n = k
     \<Longrightarrow> range_keys attrs names None = Inr (Some p)"
proof (induction names)
  case Nil
  then show ?case by simp
next
  case (Cons n names)
  show ?case
  proof (cases "n = k")
    case True
    have "\<forall>m \<in> set names. \<not> marked_primary attrs m"
    proof
      fix m
      assume m: "m \<in> set names"
      show "\<not> marked_primary attrs m"
      proof
        assume "marked_primary attrs m"
        then have "m = k" using Cons.prems(5) m by simp
        then have "n \<in> set names" using m True by simp
        then show False using Cons.prems(1) by simp
      qed
    qed
    then have rest: "range_keys attrs names (Some p) = Inr (Some p)"
      by (rule range_keys_unmarked)
    have "lookup attrs n = Some p" using True Cons.prems(3) by simp
    then show ?thesis using rest Cons.prems(4) by simp
  next
    case False
    have "marked_primary attrs n \<longrightarrow> n = k" using Cons.prems(5) by simp
    then have unmarked: "\<not> marked_primary attrs n" using False by simp
    have rest: "range_keys attrs names None = Inr (Some p)"
    proof (rule Cons.IH)
      show "distinct names" using Cons.prems(1) by simp
      show "k \<in> set names" using Cons.prems(2) False by simp
      show "lookup attrs k = Some p" by (rule Cons.prems(3))
      show "is_primaryKey p" by (rule Cons.prems(4))
      show "\<forall>n \<in> set names. marked_primary attrs n \<longrightarrow> n = k"
        using Cons.prems(5) by simp
    qed
    show ?thesis
    proof (cases "lookup attrs n")
      case None
      then show ?thesis using rest by simp
    next
      case (Some attr)
      then have "\<not> is_primaryKey attr" using unmarked by (simp add: marked_primary_def)
      then show ?thesis using Some rest by simp
    qed
  qed
qed

lemma range_keys_two:
  "k1 \<in> set names \<Longrightarrow> k2 \<in> set names \<Longrightarrow> k1 \<noteq> k2
     \<Longrightarrow> marked_primary attrs k1 \<Longrightarrow> marked_primary attrs k2
     \<Longrightarrow> range_keys attrs names None = Inl multiple_primary_keys"
proof (induction names)
  case Nil
  then show ?case by simp
next
  case (Cons n names)
  show ?case
  proof (cases "marked_primary attrs n")
    case True
    then obtain p where p: "lookup attrs n = Some p" "is_primaryKey p"
      by (auto simp add: marked_primary_def split: option.splits)
    have "\<exists>m \<in> set names. marked_primary attrs m"
    proof (cases "n = k1")
      case True
      then have "k2 \<in> set names" using Cons.prems(2,3) by auto
      then show ?thesis using Cons.prems(5) by blast
    next
      case False
      then have "k1 \<in> set names" using Cons.prems(1) by auto
      then show ?thesis using Cons.prems(4) by blast
    qed
    then have "range_keys attrs names (Some p) = Inl multiple_primary_keys"
      using range_keys_seen by blast
    then show ?thesis using p by simp
  next
    case False
    then have "n \<noteq> k1" "n \<noteq> k2" using Cons.prems(4,5) by auto
    then have "k1 \<in> set names" "k2 \<in> set names" using Cons.prems(1,2) by auto
    then have "range_keys attrs names None = Inl multiple_primary_keys"
      using Cons.IH Cons.prems(3,4,5) by simp
    then show ?thesis using False
      by (auto simp add: marked_primary_def split: option.splits)
  qed
qed

lemma range_values_known:
  "range_values recordName attrs names = None \<longleftrightarrow> (\<forall>n \<in> set names. lookup attrs n \<noteq> None)"
  by (induction names) auto

lemma range_keys_error:
  "range_keys attrs names pk = Inl e \<Longrightarrow> e = multiple_primary_keys"
  by (induction names arbitrary: pk) (auto split: option.splits if_splits)

lemma range_values_error:
  "range_values recordName attrs names = Some e \<Longrightarrow> \<exists>n. e = ErrUnknownAttribute recordName n"
  by (induction names) (auto split: if_splits)

lemma marked_primary_in_order:
  "is_order (keys_of attrs) names \<Longrightarrow> marked_primary attrs n \<Longrightarrow> n \<in> set names"
  by (auto simp add: is_order_def keys_of_def marked_primary_def lookup_def split: option.splits)

lemma range_keys_at_most_one:
  assumes "is_order (keys_of attrs) names"
    and "\<forall>n1 n2. marked_primary attrs n1 \<and> marked_primary attrs n2 \<longrightarrow> n1 = n2"
  shows "\<exists>pk. range_keys attrs names None = Inr pk"
proof (cases "\<exists>k. marked_primary attrs k")
  case True
  then obtain k where k: "marked_primary attrs k" by blast
  then obtain p where p: "lookup attrs k = Some p" "is_primaryKey p"
    by (auto simp add: marked_primary_def split: option.splits)
  have "range_keys attrs names None = Inr (Some p)"
  proof (rule range_keys_one)
    show "distinct names" using assms(1) by (simp add: is_order_def)
    show "k \<in> set names" using assms(1) k by (rule marked_primary_in_order)
    show "lookup attrs k = Some p" by (rule p(1))
    show "is_primaryKey p" by (rule p(2))
    show "\<forall>n \<in> set names. marked_primary attrs n \<longrightarrow> n = k" using assms(2) k by blast
  qed
  then show ?thesis by blast
next
  case False
  then have "range_keys attrs names None = Inr None"
    by (simp add: range_keys_unmarked)
  then show ?thesis by blast
qed

lemma errors_differ: "multiple_primary_keys \<noteq> not_a_primary_key"
  by (simp add: multiple_primary_keys_def not_a_primary_key_def)

text \<open>
  Claim C3, amended: for a schema in which at most one attribute is marked as
  primary key, construction fails with the reserved-name error when the schema
  holds under \<open>id\<close> an attribute that is not marked as primary key, and it does
  not fail with that error when the schema holds nothing under \<open>id\<close>.
\<close>

theorem C3_reserved_name:
  assumes "is_order (keys_of attrs) key_order"
    and "\<forall>n1 n2. marked_primary attrs n1 \<and> marked_primary attrs n2 \<longrightarrow> n1 = n2"
  shows "(lookup attrs ''id'' = Some attr \<and> \<not> is_primaryKey attr \<longrightarrow>
            newAttributes recordName attrs vals key_order value_order = Inl not_a_primary_key)
    \<and> (lookup attrs ''id'' = None \<longrightarrow>
            newAttributes recordName attrs vals key_order value_order \<noteq> Inl not_a_primary_key)"
proof -
  obtain pk where pk: "range_keys attrs key_order None = Inr pk"
    using range_keys_at_most_one [OF assms] by blast
  have present: "lookup attrs ''id'' = Some attr \<Longrightarrow>
      newAttributes recordName attrs vals key_order value_order = Inl not_a_primary_key"
    using pk by (simp add: newAttributes_def defaultPrimaryKeyName_def)
  have absent: "newAttributes recordName attrs vals key_order value_order \<noteq> Inl not_a_primary_key"
    if "lookup attrs ''id'' = None"
  proof
    assume "newAttributes recordName attrs vals key_order value_order = Inl not_a_primary_key"
    then show False
      using pk that
      by (auto simp add: newAttributes_def defaultPrimaryKeyName_def store_def not_a_primary_key_def
          split: if_splits option.splits sum.splits dest: range_values_error)
  qed
  show ?thesis using present absent by blast
qed

text \<open>
  Claim C3, amended, on a schema with a plain attribute \<open>id\<close> and on a schema
  with the primary key \<open>uid\<close> and no \<open>id\<close>.
\<close>

theorem C3_reserved_name_witness:
  "lookup plain_id_schema ''id'' = Some (IntAttr ''id'' [])
   \<and> \<not> is_primaryKey (IntAttr ''id'' [])
   \<and> newAttributes ''person'' plain_id_schema None [''id''] [] = Inl not_a_primary_key
   \<and> lookup keyed_schema ''id'' = None
   \<and> newAttributes ''person'' keyed_schema None [''name'', ''uid''] [] \<noteq> Inl not_a_primary_key"
proof -
  have plain: "\<forall>n1 n2. marked_primary plain_id_schema n1 \<and> marked_primary plain_id_schema n2
      \<longrightarrow> n1 = n2"
    by (simp add: plain_id_schema_unmarked)
  have keyed: "\<forall>n1 n2. marked_primary keyed_schema n1 \<and> marked_primary keyed_schema n2
      \<longrightarrow> n1 = n2"
    by (simp add: keyed_schema_marked)
  have ids: "lookup plain_id_schema ''id'' = Some (IntAttr ''id'' [])"
      "lookup keyed_schema ''id'' = None"
    by (simp_all add: plain_id_schema_def keyed_schema_def lookup_def)
  show ?thesis
    using
      C3_reserved_name [OF plain_id_schema_order plain, where attr = "IntAttr ''id'' []"
        and recordName = "''person''" and vals = None and value_order = "[]"]
      C3_reserved_name [OF keyed_schema_order keyed, where recordName = "''person''"
        and vals = None and value_order = "[]"]
      ids
    by simp
qed

text \<open>
  Claim C3, as stated, at a schema with a plain attribute \<open>id\<close> and two
  attributes marked as primary key: construction fails with the
  multiple-primary-keys error, which is checked first, not with the
  reserved-name error.
\<close>

theorem C3_duplicate_keys_reported_first:
  "lookup plain_id_two_keys_schema ''id'' = Some (IntAttr ''id'' [])
   \<and> \<not> is_primaryKey (IntAttr ''id'' [])
   \<and> newAttributes ''person'' plain_id_two_keys_schema None [''a'', ''b'', ''id''] []
       = Inl multiple_primary_keys
   \<and> newAttributes ''person'' plain_id_two_keys_schema None [''id'', ''b'', ''a''] []
       = Inl multiple_primary_keys
   \<and> multiple_primary_keys \<noteq> not_a_primary_key"
  by (simp add: plain_id_two_keys_schema_def newAttributes_def lookup_def
      multiple_primary_keys_def not_a_primary_key_def)

text \<open>
  A schema whose only attribute is named \<open>id\<close> and is marked as primary key:
  the test for the reserved name does not look at the marking, and construction
  fails with the error that says \<open>id\<close> is not a primary key.
\<close>

lemma newAttributes_primary_key_named_id:
  "lookup primary_id_schema ''id'' = Some (PrimaryKey (IntAttr ''id'' []))
   \<and> is_primaryKey (PrimaryKey (IntAttr ''id'' []))
   \<and> newAttributes ''person'' primary_id_schema None [''id''] [] = Inl not_a_primary_key"
  by (simp add: primary_id_schema_def newAttributes_def lookup_def defaultPrimaryKeyName_def)

text \<open>
  Claim C5, amended: for a non-nil schema with no attribute marked as primary
  key and nothing under \<open>id\<close>, and initial values that name only attributes of
  the schema or \<open>id\<close>, construction succeeds, the primary key is a synthesized
  integer attribute named \<open>id\<close>, and the schema of the result is the given one
  with that attribute added under \<open>id\<close>. For a schema with exactly one attribute
  marked as primary key, a successful construction returns the schema unchanged
  with that attribute as primary key (and construction succeeds when nothing is
  under \<open>id\<close> and the initial values name only attributes of the schema). For a
  schema with two or more attributes marked as primary key, construction fails
  with the multiple-primary-keys error.
\<close>

theorem C5_primary_key_synthesis:
  assumes "is_order (keys_of attrs) key_order"
    and "is_order (keys_of vals) value_order"
  shows "((\<forall>n. \<not> marked_primary attrs n) \<and> attrs = Some m \<and> m ''id'' = None
          \<and> (\<forall>n \<in> keys_of vals. n = ''id'' \<or> m n \<noteq> None) \<longrightarrow>
            newAttributes recordName attrs vals key_order value_order =
              Inr \<lparr>attr_recordName = recordName,
                   attr_primaryKey = Some (synthesized_primaryKey),
                   attr_keys = Some (m(''id'' \<mapsto> synthesized_primaryKey)),
                   attr_values = vals\<rparr>)
    \<and> (lookup attrs k = Some p \<and> is_primaryKey p \<and> (\<forall>n. marked_primary attrs n \<longrightarrow> n = k) \<longrightarrow>
          (\<forall>res. newAttributes recordName attrs vals key_order value_order = Inr res \<longrightarrow>
             attr_keys res = attrs \<and> attr_primaryKey res = Some p)
          \<and> (lookup attrs ''id'' = None \<and> (\<forall>n \<in> keys_of vals. lookup attrs n \<noteq> None) \<longrightarrow>
               newAttributes recordName attrs vals key_order value_order =
                 Inr \<lparr>attr_recordName = recordName, attr_primaryKey = Some p,
                      attr_keys = attrs, attr_values = vals\<rparr>))
    \<and> (marked_primary attrs ka \<and> marked_primary attrs kb \<and> ka \<noteq> kb \<longrightarrow>
          newAttributes recordName attrs vals key_order value_order = Inl multiple_primary_keys)
    \<and> (AttributeName synthesized_primaryKey = ''id'' \<and> CastType synthesized_primaryKey = ''int''
          \<and> is_primaryKey synthesized_primaryKey)"
    (is "?none \<and> ?one \<and> ?two \<and> ?synthesized")
proof -
  have vo: "set value_order = keys_of vals"
    using assms(2) by (simp add: is_order_def)
  have none: ?none
  proof (rule impI)
    assume h: "(\<forall>n. \<not> marked_primary attrs n) \<and> attrs = Some m \<and> m ''id'' = None
          \<and> (\<forall>n \<in> keys_of vals. n = ''id'' \<or> m n \<noteq> None)"
    have unmarked: "\<forall>n \<in> set key_order. \<not> marked_primary attrs n" using h by blast
    have m: "attrs = Some m" "m ''id'' = None" using h by blast+
    have known: "\<forall>n \<in> keys_of vals. n = ''id'' \<or> m n \<noteq> None" using h by blast
    have keys: "range_keys attrs key_order None = Inr None"
      using unmarked by (rule range_keys_unmarked)
    have "\<forall>n \<in> set value_order.
        lookup (Some (m(''id'' \<mapsto> synthesized_primaryKey))) n \<noteq> None"
      using known vo by (simp add: lookup_def) blast
    then have "range_values recordName (Some (m(''id'' \<mapsto> synthesized_primaryKey)))
        value_order = None"
      by (simp add: range_values_known)
    then show "newAttributes recordName attrs vals key_order value_order =
              Inr \<lparr>attr_recordName = recordName,
                   attr_primaryKey = Some (synthesized_primaryKey),
                   attr_keys = Some (m(''id'' \<mapsto> synthesized_primaryKey)),
                   attr_values = vals\<rparr>"
      using keys m
      by (simp add: newAttributes_def defaultPrimaryKeyName_def store_def lookup_def)
  qed
  have one: ?one
  proof (rule impI)
    assume h: "lookup attrs k = Some p \<and> is_primaryKey p \<and> (\<forall>n. marked_primary attrs n \<longrightarrow> n = k)"
    have p: "lookup attrs k = Some p" "is_primaryKey p" using h by blast+
    have only: "\<forall>n \<in> set key_order. marked_primary attrs n \<longrightarrow> n = k" using h by blast
    have "marked_primary attrs k"
      using p by (simp add: marked_primary_def)
    then have k: "k \<in> set key_order"
      using assms(1) by (simp add: marked_primary_in_order)
    have d: "distinct key_order" using assms(1) by (simp add: is_order_def)
    have keys: "range_keys attrs key_order None = Inr (Some p)"
      using d k p only by (rule range_keys_one)
    have success: "lookup attrs ''id'' = None \<and> (\<forall>n \<in> keys_of vals. lookup attrs n \<noteq> None) \<longrightarrow>
        newAttributes recordName attrs vals key_order value_order =
        Inr \<lparr>attr_recordName = recordName, attr_primaryKey = Some p,
             attr_keys = attrs, attr_values = vals\<rparr>"
    proof (rule impI)
      assume s: "lookup attrs ''id'' = None \<and> (\<forall>n \<in> keys_of vals. lookup attrs n \<noteq> None)"
      have "range_values recordName attrs value_order = None"
        using s vo by (simp add: range_values_known)
      then show "newAttributes recordName attrs vals key_order value_order =
        Inr \<lparr>attr_recordName = recordName, attr_primaryKey = Some p,
             attr_keys = attrs, attr_values = vals\<rparr>"
        using keys s by (simp add: newAttributes_def defaultPrimaryKeyName_def)
    qed
    have unchanged: "\<forall>res. newAttributes recordName attrs vals key_order value_order = Inr res \<longrightarrow>
             attr_keys res = attrs \<and> attr_primaryKey res = Some p"
    proof (intro allI impI)
      fix res
      assume "newAttributes recordName attrs vals key_order value_order = Inr res"
      then have "res = \<lparr>attr_recordName = recordName, attr_primaryKey = Some p,
             attr_keys = attrs, attr_values = vals\<rparr>"
        using keys by (simp add: newAttributes_def split: if_splits option.splits)
      then show "attr_keys res = attrs \<and> attr_primaryKey res = Some p" by simp
    qed
    show "(\<forall>res. newAttributes recordName attrs vals key_order value_order = Inr res \<longrightarrow>
             attr_keys res = attrs \<and> attr_primaryKey res = Some p)
          \<and> (lookup attrs ''id'' = None \<and> (\<forall>n \<in> keys_of vals. lookup attrs n \<noteq> None) \<longrightarrow>
               newAttributes recordName attrs vals key_order value_order =
                 Inr \<lparr>attr_recordName = recordName, attr_primaryKey = Some p,
                      attr_keys = attrs, attr_values = vals\<rparr>)"
      using unchanged success by (rule conjI)
  qed
  have two: ?two
  proof (rule impI)
    assume h: "marked_primary attrs ka \<and> marked_primary attrs kb \<and> ka \<noteq> kb"
    have ka: "ka \<in> set key_order" using assms(1) h by (simp add: marked_primary_in_order)
    have kb: "kb \<in> set key_order" using assms(1) h by (simp add: marked_primary_in_order)
    have ne: "ka \<noteq> kb" and m1: "marked_primary attrs ka" and m2: "marked_primary attrs kb"
      using h by simp_all
    have "range_keys attrs key_order None = Inl multiple_primary_keys"
      using ka kb ne m1 m2 by (rule range_keys_two)
    then show "newAttributes recordName attrs vals key_order value_order = Inl multiple_primary_keys"
      by (simp add: newAttributes_def)
  qed
  have synthesized: ?synthesized
    by (simp add: synthesized_primaryKey_def defaultPrimaryKeyName_def)
  show ?thesis by (rule conjI [OF none conjI [OF one conjI [OF two synthesized]]])
qed

text \<open>
  Claim C5, amended, on a schema without primary key, a schema with the
  primary key \<open>uid\<close> and a schema with two primary keys.
\<close>

theorem C5_primary_key_synthesis_witness:
  "(\<forall>n. \<not> marked_primary person_schema n)
   \<and> newAttributes ''person'' person_schema (Some [''name'' \<mapsto> StrV ''Ann'', ''id'' \<mapsto> IntV 1])
         [''age'', ''name''] [''id'', ''name'']
       = Inr \<lparr>attr_recordName = ''person'',
              attr_primaryKey = Some (PrimaryKey (IntAttr ''id'' [])),
              attr_keys = Some [''name'' \<mapsto> StringAttr ''name'' [],
                                ''age'' \<mapsto> IntAttr ''age'' [positive],
                                ''id'' \<mapsto> PrimaryKey (IntAttr ''id'' [])],
              attr_values = Some [''name'' \<mapsto> StrV ''Ann'', ''id'' \<mapsto> IntV 1]\<rparr>
   \<and> lookup keyed_schema ''uid'' = Some (PrimaryKey (StringAttr ''uid'' []))
   \<and> newAttributes ''person'' keyed_schema (Some [''name'' \<mapsto> StrV ''Ann''])
         [''name'', ''uid''] [''name'']
       = Inr \<lparr>attr_recordName = ''person'',
              attr_primaryKey = Some (PrimaryKey (StringAttr ''uid'' [])),
              attr_keys = keyed_schema,
              attr_values = Some [''name'' \<mapsto> StrV ''Ann'']\<rparr>
   \<and> marked_primary two_keys_schema ''a'' \<and> marked_primary two_keys_schema ''b''
   \<and> newAttributes ''person'' two_keys_schema None [''b'', ''a''] [] = Inl multiple_primary_keys"
proof -
  have vals1: "is_order (keys_of (Some [''name'' \<mapsto> StrV ''Ann'', ''id'' \<mapsto> IntV 1]))
      [''id'', ''name'']"
    by (auto simp add: is_order_def keys_of_def)
  have vals2: "is_order (keys_of (Some [''name'' \<mapsto> StrV ''Ann''])) [''name'']"
    by (auto simp add: is_order_def keys_of_def)
  have vals3: "is_order (keys_of (None :: (string, val) gomap)) []"
    by (simp add: is_order_def keys_of_def)
  have schema: "person_schema = Some [''name'' \<mapsto> StringAttr ''name'' [],
      ''age'' \<mapsto> IntAttr ''age'' [positive]]"
    by (simp add: person_schema_def)
  have uid: "lookup keyed_schema ''uid'' = Some (PrimaryKey (StringAttr ''uid'' []))"
      "lookup keyed_schema ''id'' = None" "lookup keyed_schema ''name'' \<noteq> None"
    by (simp_all add: keyed_schema_def lookup_def)
  have two: "marked_primary two_keys_schema ''a''" "marked_primary two_keys_schema ''b''"
    by (simp_all add: two_keys_schema_def marked_primary_def lookup_def)
  have first: "newAttributes ''person'' person_schema (Some [''name'' \<mapsto> StrV ''Ann'', ''id'' \<mapsto> IntV 1])
         [''age'', ''name''] [''id'', ''name'']
       = Inr \<lparr>attr_recordName = ''person'',
              attr_primaryKey = Some (PrimaryKey (IntAttr ''id'' [])),
              attr_keys = Some [''name'' \<mapsto> StringAttr ''name'' [],
                                ''age'' \<mapsto> IntAttr ''age'' [positive],
                                ''id'' \<mapsto> PrimaryKey (IntAttr ''id'' [])],
              attr_values = Some [''name'' \<mapsto> StrV ''Ann'', ''id'' \<mapsto> IntV 1]\<rparr>"
    using C5_primary_key_synthesis [OF person_schema_order vals1,
        where m = "[''name'' \<mapsto> StringAttr ''name'' [], ''age'' \<mapsto> IntAttr ''age'' [positive]]"
        and recordName = "''person''"]
      person_schema_unmarked schema
    by (simp add: keys_of_def synthesized_primaryKey_def defaultPrimaryKeyName_def)
  have second: "newAttributes ''person'' keyed_schema (Some [''name'' \<mapsto> StrV ''Ann''])
         [''name'', ''uid''] [''name'']
       = Inr \<lparr>attr_recordName = ''person'',
              attr_primaryKey = Some (PrimaryKey (StringAttr ''uid'' [])),
              attr_keys = keyed_schema,
              attr_values = Some [''name'' \<mapsto> StrV ''Ann'']\<rparr>"
    using C5_primary_key_synthesis [OF keyed_schema_order vals2,
        where k = "''uid''" and p = "PrimaryKey (StringAttr ''uid'' [])"
        and recordName = "''person''"]
      keyed_schema_marked uid
    by (simp add: keys_of_def)
  have third: "newAttributes ''person'' two_keys_schema None [''b'', ''a''] [] = Inl multiple_primary_keys"
    using C5_primary_key_synthesis [OF two_keys_schema_order vals3,
        where ka = "''a''" and kb = "''b''" and recordName = "''person''"]
      two
    by simp
  show ?thesis using first second third person_schema_unmarked uid(1) two by simp
qed

text \<open>
  Claim C5, as stated, at three schemas with no attribute marked as primary
  key: one with a plain attribute \<open>id\<close>, where construction fails with the
  reserved-name error; the nil schema, where writing the synthesized key
  panics; and one whose initial values name an undeclared attribute, where
  construction fails with \<^verbatim>\<open>ErrUnknownAttribute\<close> after the key has been
  written into the schema. None of them returns a registry.
\<close>

theorem C5_no_synthesis_without_primary_key:
  "\<not> marked_primary plain_id_schema ''id''
   \<and> keys_of plain_id_schema = {''id''}
   \<and> newAttributes ''person'' plain_id_schema None [''id''] [] = Inl not_a_primary_key
   \<and> keys_of None = ({} :: string set)
   \<and> newAttributes ''person'' None None [] [] = Inl PanicNilMap
   \<and> \<not> marked_primary person_schema ''age'' \<and> \<not> marked_primary person_schema ''name''
   \<and> keys_of person_schema = {''age'', ''name''}
   \<and> newAttributes ''person'' person_schema (Some [''nick'' \<mapsto> StrV ''Al''])
         [''age'', ''name''] [''nick'']
       = Inl (ErrUnknownAttribute ''person'' ''nick'')"
  by (auto simp add: plain_id_schema_def person_schema_def newAttributes_def lookup_def store_def
      keys_of_def marked_primary_def defaultPrimaryKeyName_def)

end
